theory Spec2Isabelle
  imports Main
begin

section \<open>Skills\<close>

text \<open>
  \<^verbatim>\<open>class Skill\<close>: three string fields. The class defines neither \<^verbatim>\<open>__eq__\<close> nor
  \<^verbatim>\<open>__bool__\<close>, so every instance is truthy and the program compares skills by
  \<^verbatim>\<open>name\<close> only.
\<close>

record Skill =
  name :: string
  description :: string
  category :: string

section \<open>Errors\<close>

text \<open>
  The exceptions the modelled code can meet. \<open>ValueError\<close> is what
  \<^verbatim>\<open>random.sample\<close> raises when asked for more elements than the population holds,
  \<open>IndexError\<close> what \<^verbatim>\<open>random.choice\<close> raises on an empty sequence, \<open>EOFError\<close> what
  \<^verbatim>\<open>input()\<close> raises when no line is left. The source defines no exception class of
  its own and contains no \<^verbatim>\<open>raise\<close>; \<open>InvalidFusionError\<close> is the name the
  specification gives to a rejected registration, and no branch of the model
  produces it because no branch of the source does.
\<close>

datatype error = ValueError | IndexError | EOFError | InvalidFusionError

section \<open>Fusion table\<close>

text \<open>
  \<^verbatim>\<open>self._table: Dict[frozenset[str], Skill]\<close>: a dictionary keyed by the set of the
  two skill names.
\<close>

type_synonym FusionTable = "string set \<rightharpoonup> Skill"

text \<open>
  The local function \<^verbatim>\<open>add\<close> of \<^verbatim>\<open>_register_default_fusions\<close>:
  \<^verbatim>\<open>self._table[frozenset([skill_a, skill_b])] = result\<close>. It has a single
  statement, a dictionary store, so it always returns normally (\<open>Inr\<close>).
\<close>

definition add :: "FusionTable \<Rightarrow> string \<Rightarrow> string \<Rightarrow> Skill \<Rightarrow> error + FusionTable" where
  "add table skill_a skill_b result = Inr (table({skill_a, skill_b} \<mapsto> result))"

definition Acidic_Web :: Skill where
  "Acidic_Web = \<lparr>name = ''Acidic Web'',
     description = ''Fires a sticky web that deals damage over time and slows victims.'',
     category = ''Venom''\<rparr>"

definition Conductive_Spray :: Skill where
  "Conductive_Spray = \<lparr>name = ''Conductive Spray'',
     description = ''A stream of water that electrocutes multiple foes.'',
     category = ''Water/Lightning''\<rparr>"

definition Flaming_Cyclone :: Skill where
  "Flaming_Cyclone = \<lparr>name = ''Flaming Cyclone'',
     description = ''A fiery vortex that pulls in enemies while burning them.'',
     category = ''Fire/Wind''\<rparr>"

text \<open>\<^verbatim>\<open>_register_default_fusions\<close>: three calls of \<^verbatim>\<open>add\<close>, in the source's order.\<close>

definition register_default_fusions :: "FusionTable \<Rightarrow> error + FusionTable" where
  "register_default_fusions table =
     (case add table ''Thread Shot'' ''Acid Glob'' Acidic_Web of
        Inl e \<Rightarrow> Inl e
      | Inr t1 \<Rightarrow>
          (case add t1 ''Water Jet'' ''Electric Current'' Conductive_Spray of
             Inl e \<Rightarrow> Inl e
           | Inr t2 \<Rightarrow> add t2 ''Fireball'' ''Wind Burst'' Flaming_Cyclone))"

text \<open>\<^verbatim>\<open>FusionTable.__init__\<close>: an empty dictionary, then the default fusions.\<close>

definition FusionTable_init :: "error + FusionTable" where
  "FusionTable_init = register_default_fusions Map.empty"

text \<open>
  \<^verbatim>\<open>FusionTable.fuse\<close>: \<^verbatim>\<open>self._table.get(frozenset([skill_a.name, skill_b.name]))\<close>;
  \<^verbatim>\<open>dict.get\<close> returns \<^verbatim>\<open>None\<close> for a missing key.
\<close>

definition fuse :: "FusionTable \<Rightarrow> Skill \<Rightarrow> Skill \<Rightarrow> Skill option" where
  "fuse table skill_a skill_b = table {name skill_a, name skill_b}"

section \<open>Creatures\<close>

text \<open>
  \<^verbatim>\<open>class Creature\<close>, and \<^verbatim>\<open>class Player(Creature)\<close> with its extra field
  \<^verbatim>\<open>layer\<close>. Python integers are unbounded: \<open>int\<close>. \<^verbatim>\<open>class Enemy(Creature)\<close> adds
  no field. The creature's field \<^verbatim>\<open>name\<close> is \<open>cname\<close> here, \<open>name\<close> being the field of
  \<open>Skill\<close>.
\<close>

record Creature =
  cname :: string
  max_health :: int
  health :: int
  skills :: "Skill list"

record Player = Creature +
  layer :: int

text \<open>\<^verbatim>\<open>Creature.__init__\<close>: health starts at \<^verbatim>\<open>max_health\<close>, the skill list is copied.\<close>

definition Creature_init :: "string \<Rightarrow> int \<Rightarrow> Skill list \<Rightarrow> Creature" where
  "Creature_init nm mh sk = \<lparr>cname = nm, max_health = mh, health = mh, skills = sk\<rparr>"

definition is_alive :: "'a Creature_scheme \<Rightarrow> bool" where
  "is_alive c = (health c > 0)"

definition take_damage :: "'a Creature_scheme \<Rightarrow> int \<Rightarrow> 'a Creature_scheme" where
  "take_damage c amount = c\<lparr>health := max 0 (health c - amount)\<rparr>"

text \<open>
  \<^verbatim>\<open>absorb_skill\<close>: append the skill unless its name is among the names already
  known.
\<close>

definition absorb_skill :: "'a Creature_scheme \<Rightarrow> Skill \<Rightarrow> 'a Creature_scheme" where
  "absorb_skill c skill =
     (if name skill \<notin> set (map name (skills c)) then c\<lparr>skills := skills c @ [skill]\<rparr> else c)"

text \<open>\<^verbatim>\<open>Player.evolve\<close>: \<^verbatim>\<open>max_health += 5\<close>, then a full heal.\<close>

definition evolve :: "Player \<Rightarrow> Player" where
  "evolve p = p\<lparr>max_health := max_health p + 5, health := max_health p + 5\<rparr>"

section \<open>Randomness\<close>

text \<open>
  The source draws from Python's global generator. The model makes the generator
  explicit: an infinite stream of raw draws \<open>rng\<close> and a cursor \<open>k\<close>, the number of
  draws consumed so far. Each library call reads one raw draw and maps it into its
  range, so every value the library could return is returned for some stream.
\<close>

type_synonym rng = "nat \<Rightarrow> nat"

text \<open>
  \<^verbatim>\<open>random.randint(a, b)\<close>: an integer \<open>N\<close> with \<open>a \<le> N \<le> b\<close>. The source calls it
  with the literal bounds \<open>(1, 3)\<close> and \<open>(1, 2)\<close> only, so the \<^verbatim>\<open>ValueError\<close> of an empty
  range cannot occur.
\<close>

definition randint :: "int \<Rightarrow> int \<Rightarrow> nat \<Rightarrow> int" where
  "randint a b r = a + int (r mod nat (b - a + 1))"

text \<open>\<^verbatim>\<open>random.choice(seq)\<close>: raises \<^verbatim>\<open>IndexError\<close> on an empty sequence.\<close>

definition choice :: "'a list \<Rightarrow> nat \<Rightarrow> error + 'a" where
  "choice xs r = (if xs = [] then Inl IndexError else Inr (xs ! (r mod length xs)))"

text \<open>
  \<^verbatim>\<open>random.sample(population, n)\<close>: \<open>n\<close> elements at distinct positions, without
  replacement; raises \<^verbatim>\<open>ValueError\<close> unless \<open>0 \<le> n \<le> len(population)\<close>. \<open>pick\<close> draws
  one position at a time from what is left; \<open>sample\<close> calls it only with
  \<open>n \<le> length xs\<close>, so it never draws from an empty list. \<open>del_at xs i\<close> is
  \<^verbatim>\<open>del xs[i]\<close> for an index within the list.
\<close>

definition del_at :: "'a list \<Rightarrow> nat \<Rightarrow> 'a list" where
  "del_at xs i = take i xs @ drop (Suc i) xs"

fun pick :: "'a list \<Rightarrow> nat \<Rightarrow> rng \<Rightarrow> nat \<Rightarrow> 'a list \<times> nat" where
  "pick xs 0 rng k = ([], k)"
| "pick xs (Suc n) rng k =
     (let i = rng k mod length xs;
          (ys, k') = pick (del_at xs i) n rng (k + 1)
      in (xs ! i # ys, k'))"

definition sample :: "'a list \<Rightarrow> int \<Rightarrow> rng \<Rightarrow> nat \<Rightarrow> error + ('a list \<times> nat)" where
  "sample population n rng k =
     (if n < 0 \<or> int (length population) < n then Inl ValueError
      else Inr (pick population (nat n) rng k))"

text \<open>
  \<^verbatim>\<open>Creature.attack_power\<close>: \<^verbatim>\<open>len(self.skills) * random.randint(1, 3)\<close>; \<open>r\<close> is the
  raw draw the call consumes.
\<close>

definition attack_power :: "'a Creature_scheme \<Rightarrow> nat \<Rightarrow> int" where
  "attack_power c r = int (length (skills c)) * randint 1 3 r"

section \<open>The skill pool, players and enemies\<close>

definition BASIC_SKILLS :: "Skill list" where
  "BASIC_SKILLS =
    [\<lparr>name = ''Fireball'', description = ''Hurl a small orb of fire.'', category = ''Fire''\<rparr>,
     \<lparr>name = ''Thread Shot'',
        description = ''Shoot a sticky thread that briefly snares foes.'', category = ''Wind''\<rparr>,
     \<lparr>name = ''Acid Glob'',
        description = ''Spit a glob of acid that corrodes armour.'', category = ''Venom''\<rparr>,
     \<lparr>name = ''Water Jet'',
        description = ''Send a focused jet of water at high pressure.'', category = ''Water''\<rparr>,
     \<lparr>name = ''Electric Current'',
        description = ''Emit a surge of electricity.'', category = ''Lightning''\<rparr>,
     \<lparr>name = ''Stone Shard'', description = ''Launch a sharp shard of rock.'', category = ''Earth''\<rparr>,
     \<lparr>name = ''Wind Burst'',
        description = ''Release a concussive blast of air.'', category = ''Wind''\<rparr>,
     \<lparr>name = ''Shadow Sneak'',
        description = ''Momentarily fade into shadows, avoiding harm.'', category = ''Dark''\<rparr>]"

text \<open>
  \<^verbatim>\<open>Player.__init__\<close>: two sampled skills, then \<^verbatim>\<open>Creature.__init__\<close> with name
  \<^verbatim>\<open>"You"\<close> and 15 health, then \<^verbatim>\<open>layer = -10\<close>.
\<close>

definition Player_init :: "rng \<Rightarrow> nat \<Rightarrow> error + (Player \<times> nat)" where
  "Player_init rng k =
     (case sample BASIC_SKILLS 2 rng k of
        Inl e \<Rightarrow> Inl e
      | Inr (starting_skills, k') \<Rightarrow>
          Inr (\<lparr>cname = ''You'', max_health = 15, health = 15, skills = starting_skills,
                 layer = - 10\<rparr>, k'))"

text \<open>
  \<^verbatim>\<open>Enemy.__init__\<close>: a random name, the health formula of the layer, one or two
  sampled skills, then \<^verbatim>\<open>Creature.__init__\<close>.
\<close>

definition Enemy_init :: "int \<Rightarrow> rng \<Rightarrow> nat \<Rightarrow> error + (Creature \<times> nat)" where
  "Enemy_init player_layer rng k =
     (case choice [''Goblin'', ''Slime'', ''Spider'', ''Bat'', ''Kobold'', ''Imp''] (rng k) of
        Inl e \<Rightarrow> Inl e
      | Inr nm \<Rightarrow>
          (let max_health' = 5 + max 0 (- player_layer - 10) * 2;
               num_skills = randint 1 2 (rng (k + 1))
           in case sample BASIC_SKILLS num_skills rng (k + 2) of
                Inl e \<Rightarrow> Inl e
              | Inr (skills', k') \<Rightarrow> Inr (Creature_init nm max_health' skills', k')))"

section \<open>Battle\<close>

text \<open>
  \<^verbatim>\<open>battle\<close>: the \<^verbatim>\<open>while\<close> loop, the player striking first. The result is the
  returned boolean (\<open>True\<close>: the player won) with both creatures as the loop left them
  and the cursor of the generator. The loop need not end (two creatures without
  skills deal no damage), so the function is partial: \<open>None\<close> is a loop that never
  returns.
\<close>

partial_function (option) battle ::
  "rng \<Rightarrow> nat \<Rightarrow> Player \<Rightarrow> Creature \<Rightarrow> (bool \<times> Player \<times> Creature \<times> nat) option" where
  "battle rng k player enemy =
     (if is_alive player \<and> is_alive enemy then
        (let player_damage = attack_power player (rng k);
             enemy1 = take_damage enemy player_damage
         in if \<not> is_alive enemy1 then Some (True, player, enemy1, k + 1)
            else
              (let enemy_damage = attack_power enemy1 (rng (k + 1));
                   player1 = take_damage player enemy_damage
               in if \<not> is_alive player1 then Some (False, player1, enemy1, k + 2)
                  else battle rng (k + 2) player1 enemy1))
      else Some (False, player, enemy, k))"

declare battle.simps [code]

section \<open>Fusing skills\<close>

text \<open>
  The pairs \<^verbatim>\<open>choose_fusion\<close> collects: for \<open>i\<close> ascending and \<open>j\<close> ascending above
  \<open>i\<close>, the triple \<open>(i, j, fusion)\<close> whenever the table holds a fusion of the two
  skills.
\<close>

definition fusion_pairs :: "FusionTable \<Rightarrow> Skill list \<Rightarrow> (nat \<times> nat \<times> Skill) list" where
  "fusion_pairs fusion_table sk =
     concat (map (\<lambda>i. concat (map (\<lambda>j.
         (case fuse fusion_table (sk ! i) (sk ! j) of
            None \<Rightarrow> []
          | Some fusion \<Rightarrow> [(i, j, fusion)]))
       [i + 1 ..< length sk])) [0 ..< length sk])"

text \<open>
  A line read by \<^verbatim>\<open>input()\<close>, as the prompt loop tells lines apart: the empty
  string, a string \<^verbatim>\<open>int()\<close> parses, any other string (\<^verbatim>\<open>int()\<close> raises
  \<^verbatim>\<open>ValueError\<close>, which the loop catches).
\<close>

datatype input_line = Blank | Number int | Other

text \<open>
  The prompt loop of \<^verbatim>\<open>choose_fusion\<close> over the lines still to be read. A valid
  number removes the two skills, the higher index first, and absorbs the fusion.
  The indices come from \<open>fusion_pairs\<close>, so both deletions are within the list
  (lemma \<open>fusion_pairs_in_range\<close>).
\<close>

fun fusion_prompt ::
  "Player \<Rightarrow> (nat \<times> nat \<times> Skill) list \<Rightarrow> input_line list \<Rightarrow> error + (Player \<times> input_line list)"
where
  "fusion_prompt p pairs [] = Inl EOFError"
| "fusion_prompt p pairs (Blank # rest) = Inr (p, rest)"
| "fusion_prompt p pairs (Number choice_int # rest) =
     (if 1 \<le> choice_int \<and> choice_int \<le> int (length pairs) then
        (case pairs ! nat (choice_int - 1) of
           (i, j, result_skill) \<Rightarrow>
             Inr (absorb_skill (p\<lparr>skills := foldl del_at (skills p) (rev (sort [i, j]))\<rparr>)
                    result_skill, rest))
      else fusion_prompt p pairs rest)"
| "fusion_prompt p pairs (Other # rest) = fusion_prompt p pairs rest"

definition choose_fusion ::
  "Player \<Rightarrow> FusionTable \<Rightarrow> input_line list \<Rightarrow> error + (Player \<times> input_line list)" where
  "choose_fusion p fusion_table inputs =
     (if length (skills p) < 2 then Inr (p, inputs)
      else
        (let pairs = fusion_pairs fusion_table (skills p)
         in if pairs = [] then Inr (p, inputs) else fusion_prompt p pairs inputs))"

section \<open>Ascending\<close>

text \<open>
  The branch \<^verbatim>\<open>choice == "3"\<close> of the loop of \<^verbatim>\<open>play_game\<close>: at layer \<open>-1\<close> the loop
  is left (the surface is reached) and nothing is assigned; otherwise the layer goes
  up by one and the player regains up to 3 health.
\<close>

datatype loop_ctl = Break | Continue

definition play_game_ascend :: "Player \<Rightarrow> loop_ctl \<times> Player" where
  "play_game_ascend player =
     (if layer player = - 1 then (Break, player)
      else (Continue,
            player\<lparr>layer := layer player + 1,
                   health := min (max_health player) (health player + 3)\<rparr>))"

section \<open>Vocabulary of the properties\<close>

text \<open>The health invariant of a creature: \<open>0 \<le> health \<le> max_health\<close>.\<close>

definition health_ok :: "'a Creature_scheme \<Rightarrow> bool" where
  "health_ok c = (0 \<le> health c \<and> health c \<le> max_health c)"

text \<open>
  The operations of the program that assign a player's health, to speak of
  sequences of them: a call of \<^verbatim>\<open>take_damage\<close>, a call of \<^verbatim>\<open>evolve\<close>, a pass through
  the ascending branch of \<^verbatim>\<open>play_game\<close>.
\<close>

datatype player_op = TakeDamage int | Evolve | Ascend

fun apply_op :: "Player \<Rightarrow> player_op \<Rightarrow> Player" where
  "apply_op p (TakeDamage amount) = take_damage p amount"
| "apply_op p Evolve = evolve p"
| "apply_op p Ascend = snd (play_game_ascend p)"

fun nonneg_op :: "player_op \<Rightarrow> bool" where
  "nonneg_op (TakeDamage amount) = (0 \<le> amount)"
| "nonneg_op Evolve = True"
| "nonneg_op Ascend = True"

section \<open>Facts about the random library and the constructors\<close>

lemma randint_1_3: "1 \<le> randint 1 3 r \<and> randint 1 3 r \<le> 3"
  by (simp add: randint_def)

lemma randint_1_2: "randint 1 2 r = 1 \<or> randint 1 2 r = 2"
  by (simp add: randint_def) presburger

lemma sample_in_range:
  "0 \<le> n \<Longrightarrow> n \<le> int (length xs) \<Longrightarrow> sample xs n rng k = Inr (pick xs (nat n) rng k)"
  by (simp add: sample_def)

lemma length_BASIC_SKILLS: "length BASIC_SKILLS = 8"
  by (simp add: BASIC_SKILLS_def)

lemma Enemy_init_returns:
  "\<exists>nm sk k'. Enemy_init d rng k = Inr (Creature_init nm (5 + max 0 (- d - 10) * 2) sk, k')"
proof -
  have n: "0 \<le> randint 1 2 (rng (k + 1))"
    "randint 1 2 (rng (k + 1)) \<le> int (length BASIC_SKILLS)"
    using randint_1_2 [of "rng (k + 1)"] by (auto simp: length_BASIC_SKILLS)
  obtain sk k' where
    s: "sample BASIC_SKILLS (randint 1 2 (rng (k + 1))) rng (k + 2) = Inr (sk, k')"
    using sample_in_range [OF n] by (metis surj_pair)
  have "Enemy_init d rng k =
      Inr (Creature_init
             ([''Goblin'', ''Slime'', ''Spider'', ''Bat'', ''Kobold'', ''Imp''] ! (rng k mod 6))
             (5 + max 0 (- d - 10) * 2) sk, k')"
    unfolding Enemy_init_def choice_def Let_def s by simp
  then show ?thesis
    by blast
qed

lemma Player_init_returns:
  "\<exists>sk k'. Player_init rng k =
     Inr (\<lparr>cname = ''You'', max_health = 15, health = 15, skills = sk, layer = - 10\<rparr>, k')"
proof -
  have n: "(0::int) \<le> 2" "2 \<le> int (length BASIC_SKILLS)"
    by (simp_all add: length_BASIC_SKILLS)
  obtain sk k' where s: "sample BASIC_SKILLS 2 rng k = Inr (sk, k')"
    using sample_in_range [OF n] by (metis surj_pair)
  have "Player_init rng k =
      Inr (\<lparr>cname = ''You'', max_health = 15, health = 15, skills = sk, layer = - 10\<rparr>, k')"
    unfolding Player_init_def s by simp
  then show ?thesis
    by blast
qed

section \<open>Facts about battle\<close>

lemma attack_power_ge_1:
  assumes "skills c \<noteq> []"
  shows "1 \<le> attack_power c r"
proof -
  have "1 \<le> int (length (skills c))"
    using assms by (cases "skills c") simp_all
  moreover have "1 \<le> randint 1 3 r"
    using randint_1_3 [of r] by simp
  ultimately have "1 * 1 \<le> int (length (skills c)) * randint 1 3 r"
    by (intro mult_mono) simp_all
  then show ?thesis
    by (simp add: attack_power_def)
qed

lemma attack_power_nonneg: "0 \<le> attack_power c r"
  using randint_1_3 [of r] by (simp add: attack_power_def)

lemma battle_unfold:
  assumes "is_alive player" "is_alive enemy"
  shows "battle rng k player enemy =
    (if \<not> is_alive (take_damage enemy (attack_power player (rng k)))
     then Some (True, player, take_damage enemy (attack_power player (rng k)), k + 1)
     else if \<not> is_alive (take_damage player
                 (attack_power (take_damage enemy (attack_power player (rng k))) (rng (k + 1))))
     then Some (False,
            take_damage player
              (attack_power (take_damage enemy (attack_power player (rng k))) (rng (k + 1))),
            take_damage enemy (attack_power player (rng k)), k + 2)
     else battle rng (k + 2)
            (take_damage player
              (attack_power (take_damage enemy (attack_power player (rng k))) (rng (k + 1))))
            (take_damage enemy (attack_power player (rng k))))"
  using assms by (subst battle.simps) (simp add: Let_def)

lemma battle_stop:
  assumes "\<not> (is_alive player \<and> is_alive enemy)"
  shows "battle rng k player enemy = Some (False, player, enemy, k)"
  using assms by (subst battle.simps) auto

text \<open>
  The loop returns whenever the player knows a skill: each round takes at least one
  point from the enemy's positive health. When both creatures enter alive, the
  boolean returned tells which one fell.
\<close>

lemma battle_returns:
  assumes "skills player \<noteq> []"
  shows "\<exists>b player' enemy' k'. battle rng k player enemy = Some (b, player', enemy', k')
           \<and> (is_alive player \<and> is_alive enemy \<longrightarrow>
                 (b \<longleftrightarrow> \<not> is_alive enemy') \<and> (b \<longleftrightarrow> is_alive player'))"
  using assms
proof (induction "nat (health enemy)" arbitrary: k player enemy rule: less_induct)
  case less
  show ?case
  proof (cases "is_alive player \<and> is_alive enemy")
    case False
    then show ?thesis
      using battle_stop [OF False, of rng k] by auto
  next
    case True
    define e1 where "e1 = take_damage enemy (attack_power player (rng k))"
    define p1 where "p1 = take_damage player (attack_power e1 (rng (k + 1)))"
    have d: "1 \<le> attack_power player (rng k)"
      using less.prems by (rule attack_power_ge_1)
    have lt: "nat (health e1) < nat (health enemy)"
      using True d by (simp add: e1_def take_damage_def is_alive_def)
    have sk: "skills p1 \<noteq> []"
      using less.prems by (simp add: p1_def take_damage_def)
    have eq: "battle rng k player enemy =
       (if \<not> is_alive e1 then Some (True, player, e1, k + 1)
        else if \<not> is_alive p1 then Some (False, p1, e1, k + 2)
        else battle rng (k + 2) p1 e1)"
      using True battle_unfold [of player enemy rng k] by (simp add: e1_def p1_def)
    show ?thesis
    proof (cases "is_alive e1")
      case False
      then show ?thesis
        using eq True by auto
    next
      case e1: True
      show ?thesis
      proof (cases "is_alive p1")
        case False
        then show ?thesis
          using eq e1 by auto
      next
        case p1: True
        from less.hyps [OF lt sk, of "k + 2"] p1 e1
        obtain b player' enemy' k' where
          r: "battle rng (k + 2) p1 e1 = Some (b, player', enemy', k')"
          and c: "(b \<longleftrightarrow> \<not> is_alive enemy') \<and> (b \<longleftrightarrow> is_alive player')"
          by blast
        have "battle rng k player enemy = Some (b, player', enemy', k')"
          using eq e1 p1 r by simp
        then show ?thesis
          using c by blast
      qed
    qed
  qed
qed

section \<open>Facts about the health invariant\<close>

lemma take_damage_health_ok:
  "health_ok c \<Longrightarrow> 0 \<le> amount \<Longrightarrow> health_ok (take_damage c amount)"
  by (auto simp: health_ok_def take_damage_def)

lemma evolve_health_ok: "health_ok p \<Longrightarrow> health_ok (evolve p)"
  by (auto simp: health_ok_def evolve_def)

lemma ascend_health_ok: "health_ok p \<Longrightarrow> health_ok (snd (play_game_ascend p))"
  by (auto simp: health_ok_def play_game_ascend_def)

lemma apply_op_health_ok: "health_ok p \<Longrightarrow> nonneg_op x \<Longrightarrow> health_ok (apply_op p x)"
  by (cases x) (simp_all add: take_damage_health_ok evolve_health_ok ascend_health_ok)

lemma foldl_apply_op_health_ok:
  "health_ok p \<Longrightarrow> list_all nonneg_op ops \<Longrightarrow> health_ok (foldl apply_op p ops)"
  by (induction ops arbitrary: p) (simp_all add: apply_op_health_ok)

lemma foldl_take_damage_health_ok:
  "health_ok c \<Longrightarrow> list_all (\<lambda>a. 0 \<le> a) amounts \<Longrightarrow> health_ok (foldl take_damage c amounts)"
  by (induction amounts arbitrary: c) (simp_all add: take_damage_health_ok)

lemma battle_health_ok_aux:
  assumes "battle rng k player enemy = Some y"
  shows "health_ok player \<longrightarrow> health_ok enemy \<longrightarrow>
           health_ok (fst (snd y)) \<and> health_ok (fst (snd (snd y)))"
proof (rule battle.raw_induct
    [where P = "\<lambda>rng k player enemy y. health_ok player \<longrightarrow> health_ok enemy \<longrightarrow>
           health_ok (fst (snd y)) \<and> health_ok (fst (snd (snd y)))", rotated, OF assms])
  fix battle' :: "rng \<Rightarrow> nat \<Rightarrow> Player \<Rightarrow> Creature \<Rightarrow> (bool \<times> Player \<times> Creature \<times> nat) option"
  fix rng k player enemy y
  assume ih: "\<And>rng k player enemy y. battle' rng k player enemy = Some y \<Longrightarrow>
           health_ok player \<longrightarrow> health_ok enemy \<longrightarrow>
           health_ok (fst (snd y)) \<and> health_ok (fst (snd (snd y)))"
  assume body: "(if is_alive player \<and> is_alive enemy then
        (let player_damage = attack_power player (rng k);
             enemy1 = take_damage enemy player_damage
         in if \<not> is_alive enemy1 then Some (True, player, enemy1, k + 1)
            else
              (let enemy_damage = attack_power enemy1 (rng (k + 1));
                   player1 = take_damage player enemy_damage
               in if \<not> is_alive player1 then Some (False, player1, enemy1, k + 2)
                  else battle' rng (k + 2) player1 enemy1))
      else Some (False, player, enemy, k)) = Some y"
  show "health_ok player \<longrightarrow> health_ok enemy \<longrightarrow>
           health_ok (fst (snd y)) \<and> health_ok (fst (snd (snd y)))"
  proof (intro impI)
    assume okp: "health_ok player" and oke: "health_ok enemy"
    define e1 where "e1 = take_damage enemy (attack_power player (rng k))"
    define p1 where "p1 = take_damage player (attack_power e1 (rng (k + 1)))"
    have e1: "health_ok e1"
      unfolding e1_def using oke attack_power_nonneg by (rule take_damage_health_ok)
    have p1: "health_ok p1"
      unfolding p1_def using okp attack_power_nonneg by (rule take_damage_health_ok)
    have eq: "(if is_alive player \<and> is_alive enemy then
         (if \<not> is_alive e1 then Some (True, player, e1, k + 1)
          else if \<not> is_alive p1 then Some (False, p1, e1, k + 2)
          else battle' rng (k + 2) p1 e1)
        else Some (False, player, enemy, k)) = Some y"
      using body by (simp only: Let_def e1_def p1_def)
    show "health_ok (fst (snd y)) \<and> health_ok (fst (snd (snd y)))"
    proof (cases "is_alive player \<and> is_alive enemy \<and> is_alive e1 \<and> is_alive p1")
      case True
      then have "battle' rng (k + 2) p1 e1 = Some y"
        using eq by simp
      then show ?thesis
        using ih p1 e1 by blast
    next
      case False
      then show ?thesis
        using eq okp oke e1 p1 by (auto split: if_splits)
    qed
  qed
qed

lemma battle_health_ok:
  assumes "battle rng k player enemy = Some (b, player', enemy', k')"
    and "health_ok player" and "health_ok enemy"
  shows "health_ok player' \<and> health_ok enemy'"
  using battle_health_ok_aux [OF assms(1)] assms(2,3) by simp

section \<open>Facts about fusion\<close>

lemma FusionTable_init_eq:
  "FusionTable_init = Inr (Map.empty({''Thread Shot'', ''Acid Glob''} \<mapsto> Acidic_Web,
      {''Water Jet'', ''Electric Current''} \<mapsto> Conductive_Spray,
      {''Fireball'', ''Wind Burst''} \<mapsto> Flaming_Cyclone))"
  by (simp add: FusionTable_init_def register_default_fusions_def add_def)

lemma default_table_Thread_Acid:
  "(Map.empty({''Thread Shot'', ''Acid Glob''} \<mapsto> Acidic_Web,
      {''Water Jet'', ''Electric Current''} \<mapsto> Conductive_Spray,
      {''Fireball'', ''Wind Burst''} \<mapsto> Flaming_Cyclone)) {''Thread Shot'', ''Acid Glob''}
   = Some Acidic_Web"
  by (simp add: doubleton_eq_iff)

lemma two_names:
  assumes "set (map name sk) = {x, y}" and "distinct (map name sk)" and "x \<noteq> y"
  shows "\<exists>a b. sk = [a, b] \<and> {name a, name b} = {x, y}"
proof -
  have "length (map name sk) = card {x, y}"
    using distinct_card [OF assms(2)] assms(1) by simp
  then have "length sk = 2"
    using assms(3) by simp
  then obtain a b where sk: "sk = [a, b]"
    by (metis (no_types) length_0_conv length_Suc_conv numeral_2_eq_2)
  then show ?thesis
    using assms(1) by auto
qed

lemma fusion_pairs_two:
  "fusion_pairs table [a, b] = (case fuse table a b of None \<Rightarrow> [] | Some f \<Rightarrow> [(0, 1, f)])"
  by (simp add: fusion_pairs_def upt_rec numeral_2_eq_2 split: option.split)

lemma fusion_pairs_in_range:
  assumes "(i, j, f) \<in> set (fusion_pairs table sk)"
  shows "i < j \<and> j < length sk \<and> fuse table (sk ! i) (sk ! j) = Some f"
  using assms by (auto simp: fusion_pairs_def split: option.splits)

section \<open>Facts about attacks\<close>

lemma attack_power_bounds:
  "int (length (skills c)) * 1 \<le> attack_power c r
   \<and> attack_power c r \<le> int (length (skills c)) * 3
   \<and> attack_power c r \<in> {int (length (skills c)) * 1, int (length (skills c)) * 2,
        int (length (skills c)) * 3}"
proof -
  have "randint 1 3 r = 1 \<or> randint 1 3 r = 2 \<or> randint 1 3 r = 3"
    using randint_1_3 [of r] by arith
  then show ?thesis
    by (auto simp: attack_power_def)
qed

lemma attack_lowers_health:
  assumes "skills a \<noteq> []" and "is_alive d"
  shows "health (take_damage d (attack_power a r)) < health d
    \<and> health (take_damage d (attack_power a r)) = max 0 (health d - attack_power a r)"
  using attack_power_ge_1 [OF assms(1), of r] assms(2)
  by (simp add: take_damage_def is_alive_def)

section \<open>The claims\<close>

text \<open>
  Claim C1. For any two creatures that each know at least one skill, \<^verbatim>\<open>battle\<close>
  returns, and returns exactly one outcome: the boolean \<open>True\<close> (the player won) or
  \<open>False\<close> (the player lost). It returns because the attack power of a creature is
  at least the number of its skills times 1 (and at most that number times 3),
  hence at least 1 when it knows a skill, so that every attack on a living creature
  leaves it with strictly less health, namely \<open>max 0 (health - attack_power)\<close>. When
  both enter alive, the player wins exactly when the enemy ends dead and the player
  alive.
\<close>

theorem battle_terminates:
  assumes "skills player \<noteq> []" and "skills enemy \<noteq> []"
  shows "(\<exists>!b. \<exists>player' enemy' k'. battle rng k player enemy = Some (b, player', enemy', k'))
    \<and> (\<exists>b player' enemy' k'. battle rng k player enemy = Some (b, player', enemy', k')
          \<and> (is_alive player \<and> is_alive enemy \<longrightarrow>
                (b \<longleftrightarrow> \<not> is_alive enemy') \<and> (b \<longleftrightarrow> is_alive player')))
    \<and> 1 \<le> attack_power player r \<and> 1 \<le> attack_power enemy r
    \<and> 1 \<le> int (length (skills player)) * 1 \<and> 1 \<le> int (length (skills enemy)) * 1
    \<and> int (length (skills player)) * 1 \<le> attack_power player r
    \<and> int (length (skills enemy)) * 1 \<le> attack_power enemy r
    \<and> attack_power player r \<le> int (length (skills player)) * 3
    \<and> attack_power enemy r \<le> int (length (skills enemy)) * 3
    \<and> (is_alive enemy \<longrightarrow>
          health (take_damage enemy (attack_power player r)) < health enemy
          \<and> health (take_damage enemy (attack_power player r))
              = max 0 (health enemy - attack_power player r))
    \<and> (is_alive player \<longrightarrow>
          health (take_damage player (attack_power enemy r)) < health player
          \<and> health (take_damage player (attack_power enemy r))
              = max 0 (health player - attack_power enemy r))"
proof -
  from battle_returns [OF assms(1), of rng k enemy]
  obtain b player' enemy' k' where
    r: "battle rng k player enemy = Some (b, player', enemy', k')"
    and c: "is_alive player \<and> is_alive enemy \<longrightarrow>
             (b \<longleftrightarrow> \<not> is_alive enemy') \<and> (b \<longleftrightarrow> is_alive player')"
    by blast
  have one: "\<exists>!b. \<exists>player' enemy' k'. battle rng k player enemy = Some (b, player', enemy', k')"
    using r by auto
  have two: "\<exists>b player' enemy' k'. battle rng k player enemy = Some (b, player', enemy', k')
          \<and> (is_alive player \<and> is_alive enemy \<longrightarrow>
                (b \<longleftrightarrow> \<not> is_alive enemy') \<and> (b \<longleftrightarrow> is_alive player'))"
    using r c by blast
  have lp: "1 \<le> int (length (skills player)) * 1"
    using assms(1) by (cases "skills player") simp_all
  have le: "1 \<le> int (length (skills enemy)) * 1"
    using assms(2) by (cases "skills enemy") simp_all
  have bp: "int (length (skills player)) * 1 \<le> attack_power player r"
    "attack_power player r \<le> int (length (skills player)) * 3"
    using attack_power_bounds [of player r] by simp_all
  have be: "int (length (skills enemy)) * 1 \<le> attack_power enemy r"
    "attack_power enemy r \<le> int (length (skills enemy)) * 3"
    using attack_power_bounds [of enemy r] by simp_all
  have de: "is_alive enemy \<longrightarrow>
          health (take_damage enemy (attack_power player r)) < health enemy
          \<and> health (take_damage enemy (attack_power player r))
              = max 0 (health enemy - attack_power player r)"
    using attack_lowers_health [OF assms(1), of enemy r] by blast
  have dp: "is_alive player \<longrightarrow>
          health (take_damage player (attack_power enemy r)) < health player
          \<and> health (take_damage player (attack_power enemy r))
              = max 0 (health player - attack_power enemy r)"
    using attack_lowers_health [OF assms(2), of player r] by blast
  show ?thesis
    using one two attack_power_ge_1 [OF assms(1), of r] attack_power_ge_1 [OF assms(2), of r]
      lp le bp be de dp
    by blast
qed

theorem battle_terminates_witness:
  "skills \<lparr>cname = ''You'', max_health = 15, health = 15,
            skills = [Acidic_Web, Conductive_Spray], layer = - 10\<rparr> \<noteq> []
   \<and> skills (Creature_init ''Bat'' 5 [Flaming_Cyclone]) \<noteq> []
   \<and> is_alive \<lparr>cname = ''You'', max_health = 15, health = 15,
            skills = [Acidic_Web, Conductive_Spray], layer = - 10\<rparr>
   \<and> is_alive (Creature_init ''Bat'' 5 [Flaming_Cyclone])
   \<and> (\<exists>b player' enemy' k'.
         battle id 0
           \<lparr>cname = ''You'', max_health = 15, health = 15,
              skills = [Acidic_Web, Conductive_Spray], layer = - 10\<rparr>
           (Creature_init ''Bat'' 5 [Flaming_Cyclone]) = Some (b, player', enemy', k'))
   \<and> 2 \<le> attack_power \<lparr>cname = ''You'', max_health = 15, health = 15,
            skills = [Acidic_Web, Conductive_Spray], layer = - 10\<rparr> 0
   \<and> health (take_damage (Creature_init ''Bat'' 5 [Flaming_Cyclone])
         (attack_power \<lparr>cname = ''You'', max_health = 15, health = 15,
            skills = [Acidic_Web, Conductive_Spray], layer = - 10\<rparr> 0))
       < health (Creature_init ''Bat'' 5 [Flaming_Cyclone])"
  using battle_terminates
    [of "\<lparr>cname = ''You'', max_health = 15, health = 15,
           skills = [Acidic_Web, Conductive_Spray], layer = - 10\<rparr>"
        "Creature_init ''Bat'' 5 [Flaming_Cyclone]" id 0 0]
  by (simp add: Creature_init_def is_alive_def) blast

text \<open>
  Claim C3, as the specification states it: registering a fusion of a skill with
  itself fails with \<open>InvalidFusionError\<close>. The code has no such check: \<^verbatim>\<open>add\<close> with
  twice the name \<^verbatim>\<open>"Fireball"\<close> returns normally.
\<close>

theorem add_self_counterexample:
  "add Map.empty ''Fireball'' ''Fireball'' Acidic_Web \<noteq> Inl InvalidFusionError"
  by (simp add: add_def)

text \<open>
  Claim C3, amended: registering a fusion of a skill with itself does not fail. The
  rule is stored under the one-element key made of that skill's name, and fusing the
  skill with itself then yields the registered result.
\<close>

theorem add_self_accepted:
  "\<exists>t'. add table (name s) (name s) result = Inr t'
      \<and> t' = table({name s} \<mapsto> result) \<and> fuse t' s s = Some result"
  by (simp add: add_def fuse_def)

text \<open>
  Claim C4, as the specification states it: for every layer from \<open>-20\<close> to \<open>-1\<close> a
  spawned enemy has exactly 5 maximal health. At layer \<open>-11\<close> the enemy has 7.
\<close>

theorem Enemy_scaling_counterexample:
  "- 20 \<le> (- 11 :: int) \<and> (- 11 :: int) \<le> - 1
   \<and> Enemy_init (- 11) id 0 =
        Inr (Creature_init ''Goblin'' 7 [BASIC_SKILLS ! 2, BASIC_SKILLS ! 4], 4)
   \<and> max_health (Creature_init ''Goblin'' 7 [BASIC_SKILLS ! 2, BASIC_SKILLS ! 4]) \<noteq> 5"
  by (simp add: Enemy_init_def choice_def randint_def sample_def BASIC_SKILLS_def
      Creature_init_def del_at_def numeral_2_eq_2 Let_def)

text \<open>
  Claim C4, amended: a spawned enemy has exactly 5 maximal health precisely at the
  layers from \<open>-10\<close> upwards (so at every layer from \<open>-10\<close> to \<open>-1\<close>), and more than 5
  precisely at the layers below \<open>-10\<close>.
\<close>

theorem Enemy_scaling:
  "\<exists>e k'. Enemy_init d rng k = Inr (e, k')
      \<and> (max_health e = 5 \<longleftrightarrow> - 10 \<le> d) \<and> (5 < max_health e \<longleftrightarrow> d < - 10)"
proof -
  from Enemy_init_returns [of d rng k]
  obtain nm sk k' where
    "Enemy_init d rng k = Inr (Creature_init nm (5 + max 0 (- d - 10) * 2) sk, k')"
    by blast
  moreover have "max_health (Creature_init nm (5 + max 0 (- d - 10) * 2) sk) = 5 \<longleftrightarrow> - 10 \<le> d"
    by (auto simp: Creature_init_def max_def)
  moreover have "5 < max_health (Creature_init nm (5 + max 0 (- d - 10) * 2) sk) \<longleftrightarrow> d < - 10"
    by (auto simp: Creature_init_def max_def)
  ultimately show ?thesis
    by blast
qed

text \<open>
  Claim C5. An enemy spawned at layer \<open>d\<close> has maximal health
  \<open>5 + max 0 (- d - 10) * 2\<close> and starts at full health; at layer \<open>-10\<close> that is 5, at
  layer \<open>-31\<close> it is 47.
\<close>

theorem Enemy_max_health:
  "(\<exists>e k'. Enemy_init d rng k = Inr (e, k')
       \<and> max_health e = 5 + max 0 (- d - 10) * 2 \<and> health e = max_health e)
   \<and> (\<exists>e k'. Enemy_init (- 10) rng k = Inr (e, k') \<and> max_health e = 5)
   \<and> (\<exists>e k'. Enemy_init (- 31) rng k = Inr (e, k') \<and> max_health e = 47)"
proof -
  have g: "\<exists>e k'. Enemy_init x rng k = Inr (e, k')
       \<and> max_health e = 5 + max 0 (- x - 10) * 2 \<and> health e = max_health e" for x
    using Enemy_init_returns [of x rng k] by (auto simp: Creature_init_def)
  have a: "\<exists>e k'. Enemy_init (- 10) rng k = Inr (e, k') \<and> max_health e = 5"
    using g [of "- 10"] by auto
  have b: "\<exists>e k'. Enemy_init (- 31) rng k = Inr (e, k') \<and> max_health e = 47"
    using g [of "- 31"] by auto
  show ?thesis
    using g [of d] a b by blast
qed

text \<open>
  Claim C6. Fusion lookup is commutative: \<^verbatim>\<open>fuse\<close> of \<open>a\<close> and \<open>b\<close> equals \<^verbatim>\<open>fuse\<close> of \<open>b\<close>
  and \<open>a\<close>, in every table. In either order the result is the skill registered
  under the set of the two names when the table has a rule for it, and \<open>None\<close>, the
  absent value and not an error, exactly when the table has no rule for it. A rule
  just registered is found in both orders; in the default table Thread Shot and
  Acid Glob fuse to Acidic Web in both orders, and Fireball with Stone Shard, or
  with itself, yields \<open>None\<close>.
\<close>

theorem fuse_commutative:
  "fuse table a b = fuse table b a
   \<and> (\<exists>t'. add table (name a) (name b) result = Inr t'
         \<and> fuse t' a b = Some result \<and> fuse t' b a = Some result)
   \<and> fuse Map.empty a b = None
   \<and> (fuse table a b = None \<longleftrightarrow> {name a, name b} \<notin> dom table)
   \<and> (fuse table b a = None \<longleftrightarrow> {name a, name b} \<notin> dom table)
   \<and> (fuse table a b = Some r \<longleftrightarrow> table {name a, name b} = Some r)
   \<and> (fuse table b a = Some r \<longleftrightarrow> table {name a, name b} = Some r)
   \<and> (\<exists>t. FusionTable_init = Inr t
         \<and> fuse t (BASIC_SKILLS ! 1) (BASIC_SKILLS ! 2) = Some Acidic_Web
         \<and> fuse t (BASIC_SKILLS ! 2) (BASIC_SKILLS ! 1) = Some Acidic_Web
         \<and> fuse t (BASIC_SKILLS ! 0) (BASIC_SKILLS ! 5) = None
         \<and> fuse t (BASIC_SKILLS ! 5) (BASIC_SKILLS ! 0) = None
         \<and> fuse t (BASIC_SKILLS ! 0) (BASIC_SKILLS ! 0) = None)"
proof -
  have g: "fuse table a b = fuse table b a
   \<and> (\<exists>t'. add table (name a) (name b) result = Inr t'
         \<and> fuse t' a b = Some result \<and> fuse t' b a = Some result)
   \<and> fuse Map.empty a b = None"
    by (simp add: fuse_def add_def insert_commute)
  have n: "(fuse table a b = None \<longleftrightarrow> {name a, name b} \<notin> dom table)
   \<and> (fuse table b a = None \<longleftrightarrow> {name a, name b} \<notin> dom table)
   \<and> (fuse table a b = Some r \<longleftrightarrow> table {name a, name b} = Some r)
   \<and> (fuse table b a = Some r \<longleftrightarrow> table {name a, name b} = Some r)"
    by (auto simp: fuse_def insert_commute dom_def)
  have d: "fuse (Map.empty({''Thread Shot'', ''Acid Glob''} \<mapsto> Acidic_Web,
      {''Water Jet'', ''Electric Current''} \<mapsto> Conductive_Spray,
      {''Fireball'', ''Wind Burst''} \<mapsto> Flaming_Cyclone)) (BASIC_SKILLS ! 1) (BASIC_SKILLS ! 2) = Some Acidic_Web
     \<and> fuse (Map.empty({''Thread Shot'', ''Acid Glob''} \<mapsto> Acidic_Web,
      {''Water Jet'', ''Electric Current''} \<mapsto> Conductive_Spray,
      {''Fireball'', ''Wind Burst''} \<mapsto> Flaming_Cyclone)) (BASIC_SKILLS ! 2) (BASIC_SKILLS ! 1) = Some Acidic_Web
     \<and> fuse (Map.empty({''Thread Shot'', ''Acid Glob''} \<mapsto> Acidic_Web,
      {''Water Jet'', ''Electric Current''} \<mapsto> Conductive_Spray,
      {''Fireball'', ''Wind Burst''} \<mapsto> Flaming_Cyclone)) (BASIC_SKILLS ! 0) (BASIC_SKILLS ! 5) = None
     \<and> fuse (Map.empty({''Thread Shot'', ''Acid Glob''} \<mapsto> Acidic_Web,
      {''Water Jet'', ''Electric Current''} \<mapsto> Conductive_Spray,
      {''Fireball'', ''Wind Burst''} \<mapsto> Flaming_Cyclone)) (BASIC_SKILLS ! 5) (BASIC_SKILLS ! 0) = None
     \<and> fuse (Map.empty({''Thread Shot'', ''Acid Glob''} \<mapsto> Acidic_Web,
      {''Water Jet'', ''Electric Current''} \<mapsto> Conductive_Spray,
      {''Fireball'', ''Wind Burst''} \<mapsto> Flaming_Cyclone)) (BASIC_SKILLS ! 0) (BASIC_SKILLS ! 0) = None"
    by (simp add: fuse_def BASIC_SKILLS_def doubleton_eq_iff)
  show ?thesis
    using g n d FusionTable_init_eq by blast
qed

text \<open>
  Claim C8. Absorbing is idempotent: once a skill has been absorbed, absorbing any
  skill of the same name changes nothing; absorbing a skill whose name is already
  known changes nothing; and a new skill goes to the end of the list, the skills
  known before keeping their order.
\<close>

theorem absorb_skill_idempotent:
  assumes "name s' = name s"
  shows "absorb_skill (absorb_skill c s) s' = absorb_skill c s
    \<and> (name s \<in> set (map name (skills c)) \<longrightarrow> absorb_skill c s = c)
    \<and> (name s \<notin> set (map name (skills c)) \<longrightarrow> skills (absorb_skill c s) = skills c @ [s])
    \<and> (\<exists>ys. skills (absorb_skill c s) = skills c @ ys)"
  using assms by (auto simp: absorb_skill_def)

theorem absorb_skill_idempotent_witness:
  "name (Acidic_Web\<lparr>description := ''copy''\<rparr>) = name Acidic_Web
   \<and> absorb_skill (absorb_skill (Creature_init ''Bat'' 5 [Flaming_Cyclone]) Acidic_Web)
         (Acidic_Web\<lparr>description := ''copy''\<rparr>)
       = absorb_skill (Creature_init ''Bat'' 5 [Flaming_Cyclone]) Acidic_Web
   \<and> skills (absorb_skill (Creature_init ''Bat'' 5 [Flaming_Cyclone]) Acidic_Web)
       = [Flaming_Cyclone, Acidic_Web]
   \<and> absorb_skill (Creature_init ''Bat'' 5 [Flaming_Cyclone]) Flaming_Cyclone
       = Creature_init ''Bat'' 5 [Flaming_Cyclone]"
  using absorb_skill_idempotent
    [of "Acidic_Web\<lparr>description := ''copy''\<rparr>" Acidic_Web
        "Creature_init ''Bat'' 5 [Flaming_Cyclone]"]
    absorb_skill_idempotent
    [of Flaming_Cyclone Flaming_Cyclone "Creature_init ''Bat'' 5 [Flaming_Cyclone]"]
  by (simp add: Creature_init_def Acidic_Web_def Flaming_Cyclone_def)

text \<open>
  Claim C9. Ascending at layer \<open>-1\<close> leaves the loop (the surface is reached) and
  changes nothing of the player, the layer included. At every other layer the loop
  goes on, the layer is one higher and the player's health is
  \<open>min max_health (health + 3)\<close>, all else unchanged.
\<close>

theorem ascend_branch:
  "(layer p = - 1 \<longrightarrow> play_game_ascend p = (Break, p))
   \<and> (layer p \<noteq> - 1 \<longrightarrow>
        play_game_ascend p =
          (Continue, p\<lparr>layer := layer p + 1, health := min (max_health p) (health p + 3)\<rparr>)
        \<and> layer (snd (play_game_ascend p)) = layer p + 1
        \<and> health (snd (play_game_ascend p)) = min (max_health p) (health p + 3)
        \<and> max_health (snd (play_game_ascend p)) = max_health p
        \<and> skills (snd (play_game_ascend p)) = skills p)"
  by (simp add: play_game_ascend_def)

theorem ascend_branch_witness:
  "layer \<lparr>cname = ''You'', max_health = 15, health = 9, skills = [], layer = - 1\<rparr> = - 1
   \<and> play_game_ascend \<lparr>cname = ''You'', max_health = 15, health = 9, skills = [], layer = - 1\<rparr>
       = (Break, \<lparr>cname = ''You'', max_health = 15, health = 9, skills = [], layer = - 1\<rparr>)
   \<and> layer \<lparr>cname = ''You'', max_health = 15, health = 14, skills = [], layer = - 2\<rparr> \<noteq> - 1
   \<and> play_game_ascend \<lparr>cname = ''You'', max_health = 15, health = 14, skills = [], layer = - 2\<rparr>
       = (Continue, \<lparr>cname = ''You'', max_health = 15, health = 15, skills = [], layer = - 1\<rparr>)"
  using ascend_branch
    [of "\<lparr>cname = ''You'', max_health = 15, health = 9, skills = [], layer = - 1\<rparr>"]
    ascend_branch
    [of "\<lparr>cname = ''You'', max_health = 15, health = 14, skills = [], layer = - 2\<rparr>"]
  by simp

text \<open>
  Claim C10. \<^verbatim>\<open>take_damage\<close> sets the health to \<open>max 0 (health - amount)\<close> for every
  integer amount, a negative one included; so there is a creature within its health
  bounds that a single call with a negative amount leaves above its maximal health.
\<close>

theorem take_damage_negative_amount:
  "health (take_damage c amount) = max 0 (health c - amount)
   \<and> (\<exists>(c' :: Creature) a. 0 \<le> health c' \<and> health c' \<le> max_health c' \<and> a < 0
        \<and> max_health (take_damage c' a) < health (take_damage c' a))"
proof
  show "health (take_damage c amount) = max 0 (health c - amount)"
    by (simp add: take_damage_def)
  have "0 \<le> health (Creature_init ''Bat'' 5 [])
      \<and> health (Creature_init ''Bat'' 5 []) \<le> max_health (Creature_init ''Bat'' 5 [])
      \<and> (- 1 :: int) < 0
      \<and> max_health (take_damage (Creature_init ''Bat'' 5 []) (- 1))
          < health (take_damage (Creature_init ''Bat'' 5 []) (- 1))"
    by (simp add: take_damage_def Creature_init_def)
  then show "\<exists>(c' :: Creature) a. 0 \<le> health c' \<and> health c' \<le> max_health c' \<and> a < 0
        \<and> max_health (take_damage c' a) < health (take_damage c' a)"
    by blast
qed

text \<open>
  Claim C2. Starting from a creature within its health bounds
  (\<open>0 \<le> health \<le> max_health\<close>), every sequence of \<^verbatim>\<open>take_damage\<close> calls with
  non-negative amounts, interleaved for a player with evolutions and ascents, ends
  within the bounds. \<^verbatim>\<open>take_damage\<close> sets the health to \<open>max 0 (health - amount)\<close>
  and changes nothing at health 0. A spawned enemy and a new player start within
  the bounds, and both creatures leave a battle within them.
\<close>

theorem health_bounds:
  fixes c :: "'a Creature_scheme"
  assumes "health_ok p" and "list_all nonneg_op ops"
    and "health_ok c" and "list_all ((\<le>) 0) amounts" and "0 \<le> amount"
  shows "health_ok (foldl apply_op p ops)
    \<and> health_ok (foldl take_damage c amounts)
    \<and> health (take_damage c amount) = max 0 (health c - amount)
    \<and> take_damage (c\<lparr>health := 0\<rparr>) amount = c\<lparr>health := 0\<rparr>
    \<and> (\<exists>e k'. Enemy_init d rng k = Inr (e, k') \<and> health_ok e
          \<and> health_ok (foldl take_damage e amounts)
          \<and> (\<forall>b p' e' k''. battle rng k' p e = Some (b, p', e', k'')
                \<longrightarrow> health_ok p' \<and> health_ok e'))
    \<and> (\<exists>p0 k'. Player_init rng k = Inr (p0, k') \<and> health_ok p0
          \<and> health_ok (foldl apply_op p0 ops))"
proof -
  have a: "health_ok (foldl apply_op p ops)"
    using assms(1,2) by (rule foldl_apply_op_health_ok)
  have b: "health_ok (foldl take_damage c amounts)"
    using assms(3,4) by (rule foldl_take_damage_health_ok)
  have c1: "health (take_damage c amount) = max 0 (health c - amount)"
    by (simp add: take_damage_def)
  have c2: "take_damage (c\<lparr>health := 0\<rparr>) amount = c\<lparr>health := 0\<rparr>"
    using assms(5) by (simp add: take_damage_def)
  have e: "\<exists>e k'. Enemy_init d rng k = Inr (e, k') \<and> health_ok e
          \<and> health_ok (foldl take_damage e amounts)
          \<and> (\<forall>b p' e' k''. battle rng k' p e = Some (b, p', e', k'')
                \<longrightarrow> health_ok p' \<and> health_ok e')"
  proof -
    from Enemy_init_returns [of d rng k]
    obtain nm sk k' where
      i: "Enemy_init d rng k = Inr (Creature_init nm (5 + max 0 (- d - 10) * 2) sk, k')"
      by blast
    have ok: "health_ok (Creature_init nm (5 + max 0 (- d - 10) * 2) sk)"
      by (simp add: health_ok_def Creature_init_def)
    have f: "health_ok (foldl take_damage (Creature_init nm (5 + max 0 (- d - 10) * 2) sk) amounts)"
      using ok assms(4) by (rule foldl_take_damage_health_ok)
    have g: "\<forall>b p' e' k''.
        battle rng k' p (Creature_init nm (5 + max 0 (- d - 10) * 2) sk) = Some (b, p', e', k'')
          \<longrightarrow> health_ok p' \<and> health_ok e'"
      using battle_health_ok [OF _ assms(1) ok] by blast
    show ?thesis
      using i ok f g by blast
  qed
  have pl: "\<exists>p0 k'. Player_init rng k = Inr (p0, k') \<and> health_ok p0
          \<and> health_ok (foldl apply_op p0 ops)"
  proof -
    from Player_init_returns [of rng k]
    obtain sk k' where
      i: "Player_init rng k =
        Inr (\<lparr>cname = ''You'', max_health = 15, health = 15, skills = sk, layer = - 10\<rparr>, k')"
      by blast
    have ok: "health_ok \<lparr>cname = ''You'', max_health = 15, health = 15, skills = sk, layer = - 10\<rparr>"
      by (simp add: health_ok_def)
    have "health_ok (foldl apply_op
        \<lparr>cname = ''You'', max_health = 15, health = 15, skills = sk, layer = - 10\<rparr> ops)"
      using ok assms(2) by (rule foldl_apply_op_health_ok)
    then show ?thesis
      using i ok by blast
  qed
  show ?thesis
    using a b c1 c2 e pl by blast
qed

theorem health_bounds_witness:
  "health_ok \<lparr>cname = ''You'', max_health = 15, health = 15, skills = [], layer = - 10\<rparr>
   \<and> list_all nonneg_op [TakeDamage 4, Ascend, Evolve, TakeDamage 30, Ascend]
   \<and> health_ok (Creature_init ''Bat'' 5 [])
   \<and> list_all ((\<le>) 0) [2, 0, 7 :: int]
   \<and> (0 :: int) \<le> 3
   \<and> health_ok (foldl apply_op
         \<lparr>cname = ''You'', max_health = 15, health = 15, skills = [], layer = - 10\<rparr>
         [TakeDamage 4, Ascend, Evolve, TakeDamage 30, Ascend])
   \<and> health (foldl apply_op
         \<lparr>cname = ''You'', max_health = 15, health = 15, skills = [], layer = - 10\<rparr>
         [TakeDamage 4, Ascend, Evolve, TakeDamage 30, Ascend]) = 3
   \<and> health_ok (foldl take_damage (Creature_init ''Bat'' 5 []) [2, 0, 7])
   \<and> health (foldl take_damage (Creature_init ''Bat'' 5 []) [2, 0, 7]) = 0"
  using health_bounds
    [where p = "\<lparr>cname = ''You'', max_health = 15, health = 15, skills = [], layer = - 10\<rparr>"
       and ops = "[TakeDamage 4, Ascend, Evolve, TakeDamage 30, Ascend]"
       and c = "Creature_init ''Bat'' 5 []" and amounts = "[2, 0, 7]" and amount = 3
       and d = "- 10" and rng = id and k = 0]
  by (simp add: health_ok_def Creature_init_def take_damage_def evolve_def play_game_ascend_def)

text \<open>
  Claim C7. A player whose skills are exactly \<^verbatim>\<open>"Thread Shot"\<close> and \<^verbatim>\<open>"Acid Glob"\<close>,
  in either order, facing the default fusion table, is offered the single fusion
  \<open>(0, 1, Acidic Web)\<close>; choosing it removes both skills, the higher index first, and
  leaves \<^verbatim>\<open>"Acidic Web"\<close> as the only skill, all else unchanged.
\<close>

theorem choose_fusion_Acidic_Web:
  assumes "set (map name (skills p)) = {''Thread Shot'', ''Acid Glob''}"
    and "distinct (map name (skills p))"
  shows "\<exists>table. FusionTable_init = Inr table
     \<and> fusion_pairs table (skills p) = [(0, 1, Acidic_Web)]
     \<and> choose_fusion p table (Number 1 # rest) = Inr (p\<lparr>skills := [Acidic_Web]\<rparr>, rest)"
proof -
  define table :: FusionTable where "table = Map.empty({''Thread Shot'', ''Acid Glob''} \<mapsto> Acidic_Web,
      {''Water Jet'', ''Electric Current''} \<mapsto> Conductive_Spray,
      {''Fireball'', ''Wind Burst''} \<mapsto> Flaming_Cyclone)"
  obtain a b where sk: "skills p = [a, b]"
    and nm: "{name a, name b} = {''Thread Shot'', ''Acid Glob''}"
    using two_names [OF assms] by auto
  have f: "fuse table a b = Some Acidic_Web"
    unfolding fuse_def nm table_def by (rule default_table_Thread_Acid)
  have pairs: "fusion_pairs table (skills p) = [(0, 1, Acidic_Web)]"
    by (simp add: sk fusion_pairs_two f)
  have del: "foldl del_at [a, b] (rev (sort [0, Suc 0])) = []"
    by (simp add: del_at_def)
  have abs: "absorb_skill (p\<lparr>skills := []\<rparr>) Acidic_Web = p\<lparr>skills := [Acidic_Web]\<rparr>"
    by (simp add: absorb_skill_def)
  have "choose_fusion p table (Number 1 # rest) = Inr (p\<lparr>skills := [Acidic_Web]\<rparr>, rest)"
    unfolding choose_fusion_def pairs Let_def
    by (simp add: sk del abs del: foldl.simps sort_key_simps rev.simps)
  then show ?thesis
    using pairs FusionTable_init_eq unfolding table_def by blast
qed

theorem choose_fusion_Acidic_Web_witness:
  "set (map name (skills \<lparr>cname = ''You'', max_health = 15, health = 15,
          skills = [BASIC_SKILLS ! 2, BASIC_SKILLS ! 1], layer = - 10\<rparr>))
     = {''Thread Shot'', ''Acid Glob''}
   \<and> distinct (map name (skills \<lparr>cname = ''You'', max_health = 15, health = 15,
          skills = [BASIC_SKILLS ! 2, BASIC_SKILLS ! 1], layer = - 10\<rparr>))
   \<and> (\<exists>table. FusionTable_init = Inr table
        \<and> choose_fusion \<lparr>cname = ''You'', max_health = 15, health = 15,
              skills = [BASIC_SKILLS ! 2, BASIC_SKILLS ! 1], layer = - 10\<rparr> table [Number 1]
            = Inr (\<lparr>cname = ''You'', max_health = 15, health = 15,
                     skills = [Acidic_Web], layer = - 10\<rparr>, []))"
  using choose_fusion_Acidic_Web [of "\<lparr>cname = ''You'', max_health = 15, health = 15,
          skills = [BASIC_SKILLS ! 2, BASIC_SKILLS ! 1], layer = - 10\<rparr>" "[]"]
  by (auto simp: BASIC_SKILLS_def)

end
